theory Spec2Isabelle
  imports Complex_Main
begin

section \<open>Values, strings and errors\<close>

text \<open>
  The response-normalisation layer of \<^verbatim>\<open>sentiment_llm.py\<close> is embedded below.

  Python strings are modelled as \<^typ>\<open>string\<close>: one \<^typ>\<open>char\<close> per code point, so the
  model covers the texts whose code points are below 256. Python floats are modelled by
  \<open>pyfloat\<close>: a finite float is represented by the rational number it denotes
  (\<open>-0.0\<close> is identified with \<open>0.0\<close>), next to the two infinities and NaN.

  A value produced by \<^verbatim>\<open>json.loads\<close> is a \<open>pyval\<close>; a Python dict is an association
  list read with \<^const>\<open>map_of\<close>.
\<close>

datatype pyfloat = Fin rat | PosInf | NegInf | NaN

datatype pyval =
    PNone
  | PBool bool
  | PInt int
  | PFloat pyfloat
  | PStr string
  | PList "pyval list"
  | PDict "(string \<times> pyval) list"

text \<open>Exceptions are values. \<open>ServiceError\<close> stands for whatever the external model call raises.\<close>

datatype pyerror =
    ValueError string
  | AttributeError
  | ServiceError string

text \<open>Truthiness as Python's \<^verbatim>\<open>bool(v)\<close>; decides \<^verbatim>\<open>not v\<close> and \<^verbatim>\<open>a or b\<close>.\<close>

fun truthy :: "pyval \<Rightarrow> bool" where
  "truthy PNone = False"
| "truthy (PBool b) = b"
| "truthy (PInt i) = (i \<noteq> 0)"
| "truthy (PFloat f) = (f \<noteq> Fin 0)"
| "truthy (PStr s) = (s \<noteq> [])"
| "truthy (PList xs) = (xs \<noteq> [])"
| "truthy (PDict kvs) = (kvs \<noteq> [])"

definition py_or :: "pyval \<Rightarrow> pyval \<Rightarrow> pyval" where
  "py_or a b = (if truthy a then a else b)"

text \<open>\<^verbatim>\<open>d.get(k)\<close>: the value bound to \<open>k\<close>, or \<^verbatim>\<open>None\<close>.\<close>

definition dict_get :: "(string \<times> pyval) list \<Rightarrow> string \<Rightarrow> pyval" where
  "dict_get d k = (case map_of d k of None \<Rightarrow> PNone | Some v \<Rightarrow> v)"

subsection \<open>String primitives\<close>

text \<open>
  \<^verbatim>\<open>str.isspace\<close> and the regular expression class \<^verbatim>\<open>\s\<close> agree on one set of
  characters; below 256 these are TAB, LF, VT, FF, CR, FS, GS, RS, US, SPACE, NEL and NBSP.
\<close>

definition is_space :: "char \<Rightarrow> bool" where
  "is_space c = (c \<in> set [CHR 0x09, CHR 0x0A, CHR 0x0B, CHR 0x0C, CHR 0x0D,
                            CHR 0x1C, CHR 0x1D, CHR 0x1E, CHR 0x1F, CHR 0x20,
                            CHR 0x85, CHR 0xA0])"

definition lstrip :: "string \<Rightarrow> string" where
  "lstrip s = dropWhile is_space s"

definition rstrip :: "string \<Rightarrow> string" where
  "rstrip s = rev (dropWhile is_space (rev s))"

definition strip :: "string \<Rightarrow> string" where
  "strip s = rstrip (lstrip s)"

text \<open>\<^verbatim>\<open>str.lower\<close>, character by character: A-Z and the upper-case letters of Latin-1.\<close>

definition lower_char :: "char \<Rightarrow> char" where
  "lower_char c =
     (let n = (of_char c :: nat)
      in if (65 \<le> n \<and> n \<le> 90) \<or> (192 \<le> n \<and> n \<le> 222 \<and> n \<noteq> 215)
         then char_of (n + 32) else c)"

definition lower :: "string \<Rightarrow> string" where
  "lower s = map lower_char s"

text \<open>
  \<^verbatim>\<open>str(v)\<close>. A string is its own string form. The rendering of every other value
  (numbers, booleans, lists, dicts) is a parameter \<open>sf\<close>, so that each result below holds
  whatever that rendering is.
\<close>

definition py_str :: "(pyval \<Rightarrow> string) \<Rightarrow> pyval \<Rightarrow> string" where
  "py_str sf v = (case v of PStr s \<Rightarrow> s | _ \<Rightarrow> sf v)"

section \<open>Label Normalizer\<close>

text \<open>
  \<^verbatim>\<open>_normalize_label\<close> (lines 102-118): \<^verbatim>\<open>None\<close> raises; otherwise the stripped,
  lower-cased string form is looked up in three alias sets, in the source's order, and
  anything else raises with the raw value in the message.
\<close>

definition normalize_label :: "(pyval \<Rightarrow> string) \<Rightarrow> pyval \<Rightarrow> pyerror + string" where
  "normalize_label sf label_raw =
     (if label_raw = PNone then Inl (ValueError ''Label missing from model output'')
      else let lab = lower (strip (py_str sf label_raw))
           in if lab \<in> {''positive'', ''pos'', ''p''} then Inr ''Positive''
              else if lab \<in> {''negative'', ''neg'', ''n''} then Inr ''Negative''
              else if lab \<in> {''neutral'', ''neu'', ''ntrl'', ''neut''} then Inr ''Neutral''
              else Inl (ValueError (''Invalid label from model: '' @ [CHR 0x27]
                                      @ py_str sf label_raw @ [CHR 0x27])))"

section \<open>Explanation Shortener\<close>

text \<open>
  \<^verbatim>\<open>re.split(r'(?<=[.!?])\s+', s)\<close>: a separator is a maximal run of whitespace that
  starts right after one of \<open>.\<close>, \<open>!\<close>, \<open>?\<close>. The scan goes left to right;
  \<open>in_sep\<close> says that a separator is being consumed, \<open>after_term\<close> that the previous
  character is a sentence terminator, \<open>acc\<close> is the current part, reversed.
\<close>

fun split_sentences :: "bool \<Rightarrow> bool \<Rightarrow> string \<Rightarrow> string \<Rightarrow> string list" where
  "split_sentences in_sep after_term acc [] = [rev acc]"
| "split_sentences in_sep after_term acc (c # cs) =
     (if is_space c \<and> in_sep then split_sentences True False acc cs
      else if is_space c \<and> after_term then rev acc # split_sentences True False [] cs
      else split_sentences False (c \<in> set ''.!?'') (c # acc) cs)"

definition re_split_sentences :: "string \<Rightarrow> string list" where
  "re_split_sentences s = split_sentences False False [] s"

text \<open>\<^verbatim>\<open>sep.join(xs)\<close>.\<close>

fun join :: "string \<Rightarrow> string list \<Rightarrow> string" where
  "join sep [] = []"
| "join sep [x] = x"
| "join sep (x # y # ys) = x @ sep @ join sep (y # ys)"

text \<open>\<^verbatim>\<open>xs[:n]\<close> for an integer \<open>n\<close>; a negative \<open>n\<close> counts from the end.\<close>

definition py_take :: "int \<Rightarrow> 'a list \<Rightarrow> 'a list" where
  "py_take n xs = (if 0 \<le> n then take (nat n) xs else take (length xs - nat (- n)) xs)"

text \<open>\<^verbatim>\<open>s.rsplit(" ", 1)[0]\<close>: what stands before the last space, or all of \<open>s\<close>.\<close>

definition rsplit_head :: "string \<Rightarrow> string" where
  "rsplit_head s =
     (if CHR '' '' \<in> set s then rev (tl (dropWhile (\<lambda>c. c \<noteq> CHR '' '') (rev s))) else s)"

text \<open>\<^verbatim>\<open>_shorten_explanation\<close> (lines 62-78).\<close>

definition shorten_explanation :: "(pyval \<Rightarrow> string) \<Rightarrow> pyval \<Rightarrow> int \<Rightarrow> string" where
  "shorten_explanation sf text max_sentences =
     (if \<not> truthy text then []
      else let s = strip (py_str sf text);
               parts = re_split_sentences s;
               chosen = py_take max_sentences parts;
               short = strip (join '' '' chosen)
           in if length short > 240 then rsplit_head (take 240 short) @ ''...'' else short)"

section \<open>Text Sanitizer and JSON Extractor\<close>

text \<open>
  \<^verbatim>\<open>_JSON_BLOCK.search(text)\<close> for the pattern \<^verbatim>\<open>\{[\s\S]*\}\<close>: start positions are
  tried from the left; at an opening brace the greedy star takes the rest of the text and
  backs off to the last closing brace, and fails when there is none.
\<close>

fun json_block_search :: "string \<Rightarrow> string option" where
  "json_block_search [] = None"
| "json_block_search (c # cs) =
     (if c = CHR ''{'' \<and> CHR ''}'' \<in> set cs
      then Some (c # rev (dropWhile (\<lambda>x. x \<noteq> CHR ''}'') (rev cs)))
      else json_block_search cs)"

definition startswith :: "string \<Rightarrow> string \<Rightarrow> bool" where
  "startswith s p = (take (length p) s = p)"

definition endswith :: "string \<Rightarrow> string \<Rightarrow> bool" where
  "endswith s p = (length p \<le> length s \<and> drop (length s - length p) s = p)"

text \<open>
  Lines 44-52 of \<^verbatim>\<open>_clean_text_preserve_json\<close>, run when the stripped text starts with three
  backticks: \<^verbatim>\<open>lstrip("`")\<close> removes every leading backtick, then a leading \<open>json\<close> in
  any case goes, then three trailing backticks.
\<close>

definition strip_code_fence :: "string \<Rightarrow> string" where
  "strip_code_fence text =
     (let t1 = strip (dropWhile (\<lambda>c. c = CHR ''`'') text);
          t2 = (if lower (take 4 t1) = ''json'' then strip (drop 4 t1) else t1)
      in if endswith t2 ''```'' then strip (take (length t2 - 3) t2) else t2)"

text \<open>\<^verbatim>\<open>_clean_text_preserve_json\<close> (lines 34-59).\<close>

definition clean_text_preserve_json :: "string option \<Rightarrow> string" where
  "clean_text_preserve_json raw =
     (case raw of
        None \<Rightarrow> []
      | Some r \<Rightarrow>
          (let text = (if startswith (strip r) ''```'' then strip_code_fence (strip r)
                       else strip r)
           in (case json_block_search text of Some m \<Rightarrow> m | None \<Rightarrow> text)))"

text \<open>\<^verbatim>\<open>s.find(c)\<close> and \<^verbatim>\<open>s.rfind(c)\<close>: an index, or \<open>-1\<close>.\<close>

fun py_find :: "char \<Rightarrow> string \<Rightarrow> int" where
  "py_find c [] = - 1"
| "py_find c (x # xs) =
     (if x = c then 0 else let r = py_find c xs in if r = - 1 then - 1 else r + 1)"

definition py_rfind :: "char \<Rightarrow> string \<Rightarrow> int" where
  "py_rfind c s = (let r = py_find c (rev s) in if r = - 1 then - 1 else int (length s) - 1 - r)"

text \<open>\<^verbatim>\<open>s[a:b]\<close> for \<open>0 \<le> a\<close> and \<open>0 \<le> b\<close>.\<close>

definition slice :: "string \<Rightarrow> int \<Rightarrow> int \<Rightarrow> string" where
  "slice s a b = take (nat (b - a)) (drop (nat a) s)"

text \<open>
  \<^verbatim>\<open>_extract_json\<close> (lines 81-99). \<open>loads\<close> is \<^verbatim>\<open>json.loads\<close>, with \<open>None\<close> for a
  raised exception. \<open>recover_json\<close> tells the return sites apart: \<open>Some v\<close> when one of
  the two \<^verbatim>\<open>return json.loads(...)\<close> returns \<open>v\<close>, \<open>None\<close> at each \<^verbatim>\<open>return None\<close>.
\<close>

definition recover_json :: "(string \<Rightarrow> pyval option) \<Rightarrow> string option \<Rightarrow> pyval option" where
  "recover_json loads raw_text =
     (let cleaned = clean_text_preserve_json raw_text
      in if cleaned = [] then None
         else case loads cleaned of
                Some v \<Rightarrow> Some v
              | None \<Rightarrow>
                  let start = py_find CHR ''{'' cleaned;
                      end = py_rfind CHR ''}'' cleaned
                  in if start \<noteq> - 1 \<and> end \<noteq> - 1 \<and> end > start
                     then loads (slice cleaned start (end + 1))
                     else None)"

text \<open>
  The value \<^verbatim>\<open>_extract_json\<close> returns: Python's \<^verbatim>\<open>None\<close> both when nothing parses and
  when the parsed text is the JSON literal \<^verbatim>\<open>null\<close>.
\<close>

definition extract_json :: "(string \<Rightarrow> pyval option) \<Rightarrow> string option \<Rightarrow> pyval" where
  "extract_json loads raw_text =
     (case recover_json loads raw_text of None \<Rightarrow> PNone | Some v \<Rightarrow> v)"

section \<open>Schema Coercer\<close>

record analysis_result =
  label :: string
  confidence :: pyfloat
  explanation :: string
  evidence_phrases :: "string list"

text \<open>Comparison of floats: every comparison with NaN is false.\<close>

fun float_lt :: "pyfloat \<Rightarrow> pyfloat \<Rightarrow> bool" where
  "float_lt (Fin a) (Fin b) = (a < b)"
| "float_lt (Fin a) PosInf = True"
| "float_lt NegInf (Fin b) = True"
| "float_lt NegInf PosInf = True"
| "float_lt _ _ = False"

text \<open>
  \<^verbatim>\<open>round(x, ndigits)\<close> on a float: the exact value is rounded to \<open>ndigits\<close> decimals,
  ties to even; infinities and NaN are returned unchanged.
\<close>

definition round_half_even :: "rat \<Rightarrow> int" where
  "round_half_even q =
     (let f = \<lfloor>q\<rfloor>; d = q - of_int f
      in if d < 1 / 2 then f else if 1 / 2 < d then f + 1 else if even f then f else f + 1)"

definition py_round :: "pyfloat \<Rightarrow> nat \<Rightarrow> pyfloat" where
  "py_round x ndigits =
     (case x of Fin q \<Rightarrow> Fin (of_int (round_half_even (q * 10 ^ ndigits)) / 10 ^ ndigits)
              | _ \<Rightarrow> x)"

text \<open>
  \<^verbatim>\<open>float(v)\<close>, with \<open>None\<close> for a raised exception: \<^verbatim>\<open>OverflowError\<close> for an integer
  that rounds beyond the largest float, \<^verbatim>\<open>TypeError\<close> for \<^verbatim>\<open>None\<close>, lists and dicts.
  \<open>fs\<close> is \<^verbatim>\<open>float\<close> on strings, a parameter.
\<close>

definition py_float :: "(string \<Rightarrow> pyfloat option) \<Rightarrow> pyval \<Rightarrow> pyfloat option" where
  "py_float fs v =
     (case v of
        PFloat f \<Rightarrow> Some f
      | PInt i \<Rightarrow> if 2 ^ 1024 - 2 ^ 970 \<le> \<bar>i\<bar> then None else Some (Fin (of_int i))
      | PBool b \<Rightarrow> Some (Fin (if b then 1 else 0))
      | PStr s \<Rightarrow> fs s
      | _ \<Rightarrow> None)"

text \<open>The confidence field (lines 132-138 and the rounding of line 166).\<close>

definition coerce_confidence :: "(string \<Rightarrow> pyfloat option) \<Rightarrow> (string \<times> pyval) list \<Rightarrow> pyfloat" where
  "coerce_confidence fs parsed =
     (let conf_raw = py_or (py_or (dict_get parsed ''confidence'') (dict_get parsed ''score''))
                           (PFloat (Fin 0));
          confidence = (case py_float fs conf_raw of Some f \<Rightarrow> f | None \<Rightarrow> Fin 0);
          confidence = (if float_lt confidence (Fin 0) \<or> float_lt (Fin 1) confidence
                        then Fin 0 else confidence)
      in py_round confidence 2)"

text \<open>
  \<^verbatim>\<open>re.split(r"[|;]\s*", ev)\<close>: a separator is one delimiter and the whitespace after it.
\<close>

fun split_delims :: "bool \<Rightarrow> string \<Rightarrow> string \<Rightarrow> string list" where
  "split_delims in_sep acc [] = [rev acc]"
| "split_delims in_sep acc (c # cs) =
     (if c \<in> set ''|;'' then rev acc # split_delims True [] cs
      else if in_sep \<and> is_space c then split_delims True acc cs
      else split_delims False (c # acc) cs)"

definition re_split_delims :: "string \<Rightarrow> string list" where
  "re_split_delims s = split_delims False [] s"

text \<open>\<^verbatim>\<open>isinstance(x, (str, int, float))\<close>; a Python bool is an int.\<close>

fun is_str_int_float :: "pyval \<Rightarrow> bool" where
  "is_str_int_float (PStr s) = True"
| "is_str_int_float (PInt i) = True"
| "is_str_int_float (PBool b) = True"
| "is_str_int_float (PFloat f) = True"
| "is_str_int_float _ = False"

text \<open>The evidence field (lines 151-162).\<close>

definition coerce_evidence :: "(pyval \<Rightarrow> string) \<Rightarrow> (string \<times> pyval) list \<Rightarrow> string list" where
  "coerce_evidence sf parsed =
     (let ev = py_or (py_or (py_or (dict_get parsed ''evidence_phrases'')
                                   (dict_get parsed ''evidence''))
                            (dict_get parsed ''highlights'')) (PList []);
          ev_list = (case ev of
                       PList xs \<Rightarrow> map (\<lambda>x. strip (py_str sf x)) (filter is_str_int_float xs)
                     | PStr s \<Rightarrow> map strip (filter (\<lambda>p. strip p \<noteq> []) (re_split_delims s))
                     | _ \<Rightarrow> [])
      in take 3 ev_list)"

text \<open>
  \<^verbatim>\<open>_coerce_result\<close> (lines 121-169). \<^verbatim>\<open>parsed.get\<close> exists on a dict only: any other value
  raises \<^verbatim>\<open>AttributeError\<close> at the first lookup. The label comes first, so its error wins.
\<close>

definition coerce_result ::
  "(pyval \<Rightarrow> string) \<Rightarrow> (string \<Rightarrow> pyfloat option) \<Rightarrow> pyval \<Rightarrow> pyerror + analysis_result" where
  "coerce_result sf fs parsed =
     (case parsed of
        PDict d \<Rightarrow>
          (case normalize_label sf
                  (py_or (py_or (dict_get d ''label'') (dict_get d ''sentiment''))
                         (dict_get d ''prediction'')) of
             Inl e \<Rightarrow> Inl e
           | Inr lab \<Rightarrow>
               let explanation_raw =
                     py_or (py_or (py_or (py_or (dict_get d ''explanation'')
                                                (dict_get d ''rationale''))
                                         (dict_get d ''reason''))
                                  (dict_get d ''justification'')) (PStr [])
               in Inr \<lparr>label = lab,
                       confidence = coerce_confidence fs d,
                       explanation = shorten_explanation sf explanation_raw 2,
                       evidence_phrases = coerce_evidence sf d\<rparr>)
      | _ \<Rightarrow> Inl AttributeError)"

section \<open>Prompt and orchestration\<close>

text \<open>\<^verbatim>\<open>_PROMPT_INSTRUCTIONS\<close> (lines 253-275): a newline, then each line with its newline.\<close>

definition PROMPT_INSTRUCTIONS :: string where
  \<open>PROMPT_INSTRUCTIONS = [CHR 0x0A] @ concat (map (\<lambda>l. l @ [CHR 0x0A])
     [
        ''You are a precise movie-review sentiment classifier.'',
        '''',
        ''Return ONLY one compact JSON object and nothing else. No commentary, no markdown.'',
        ''Schema (exact):'',
        ''{'',
        ''  "label": "Positive | Negative | Neutral",'',
        ''  "confidence": 0.00,'',
        ''  "explanation": "Short reason grounded in the text (1-2 short sentences).",'',
        ''  "evidence_phrases": ["phrase1", "phrase2"]'',
        ''}'',
        '''',
        ''Rules:'',
        ''- Base judgment only on the provided review text.'',
        ''- Sarcasm: if sarcasm exists but target is ambiguous -> Neutral (Strict).'',
        ''- Comparisons ("better than the last one"): use relative tone; if overall favorable -> Positive.'',
        ''- Third-party quotes without reviewer stance -> Neutral unless reviewer endorses/opposes.'',
        ''- Mixed opinions ("great acting, boring plot"):'',
        ''  - STRICT mode: If review contains both positives and negatives, output "Neutral" in label unless one side is overwhelmingly dominant.'',
        ''  - LENIENT mode: If review contains both positives and negatives, choose the stronger side (Positive or Negative) as the label. Always mention the weaker side in the explanation.'',
        '''',
        ''Return valid JSON that follows the schema exactly. Keep "explanation" short (one or two short sentences).''
     ])\<close>

text \<open>\<^verbatim>\<open>_FEW_SHOT\<close> (lines 173-250): the review and the JSON value of each example, in order.\<close>

definition few_shot_json :: "string \<Rightarrow> rat \<Rightarrow> string \<Rightarrow> string list \<Rightarrow> pyval" where
  \<open>few_shot_json lab conf expl ev =
     PDict [(''label'', PStr lab), (''confidence'', PFloat (Fin conf)),
            (''explanation'', PStr expl), (''evidence_phrases'', PList (map PStr ev))]\<close>

definition FEW_SHOT :: "(string \<times> pyval) list" where
  \<open>FEW_SHOT =
     [(''Loved the soundtrack and the performances, even though the story drags in the middle.'',
       few_shot_json ''Positive'' (86 / 100)
         ''Praise for soundtrack and performances outweighs the pacing complaint.''
         [''Loved the soundtrack'', ''performances'', ''story drags'']),
      (''Terrible pacing and wooden acting. Do not recommend.'',
       few_shot_json ''Negative'' (94 / 100)
         ''Strong negative language about pacing and acting.''
         [''Terrible pacing'', ''wooden acting'', ''Do not recommend'']),
      (''Great acting, but the story was boring.'',
       few_shot_json ''Neutral'' (70 / 100)
         ''The review praises the acting but criticizes the story, making the sentiment balanced.''
         [''Great acting'', ''story was boring'']),
      (''Great acting, but the story was boring.'',
       few_shot_json ''Positive'' (75 / 100)
         ''The review is mostly positive about the acting, but notes the story as a drawback.''
         [''Great acting'', ''story was boring'']),
      (''The cinematography was stunning, though the pacing was a bit slow.'',
       few_shot_json ''Positive'' (75 / 100)
         ''The review is mostly positive about cinematography, but mentions slow pacing as a drawback.''
         [''cinematography was stunning'', ''pacing was a bit slow'']),
      (''The plot was messy and confusing, though the soundtrack was nice.'',
       few_shot_json ''Negative'' (78 / 100)
         ''The review is mostly negative about the plot, but notes the soundtrack positively.''
         [''plot was messy and confusing'', ''soundtrack was nice'']),
      (''The movie releases next week and stars two actors.'',
       few_shot_json ''Neutral'' (70 / 100)
         ''Factual description without a clear opinion.''
         [])]\<close>

text \<open>
  Line 292: the examples block. \<open>dumps\<close> is \<^verbatim>\<open>json.dumps(_, ensure_ascii=False)\<close>, a
  parameter.
\<close>

definition few_shot_block :: "(pyval \<Rightarrow> string) \<Rightarrow> string" where
  \<open>few_shot_block dumps =
     join [CHR 0x0A, CHR 0x0A]
       (map (\<lambda>(review, js). ''Review: "'' @ review @ ''"'' @ [CHR 0x0A] @ ''JSON: '' @ dumps js)
            FEW_SHOT)\<close>

text \<open>Lines 293-303: the mode directive.\<close>

definition mode_inst :: "bool \<Rightarrow> string" where
  \<open>mode_inst strict =
     (if strict
      then ''STRICT mode active: For mixed reviews (both good and bad), ''
           @ ''output must be 'Neutral' unless one side is extremely dominant.''
      else ''LENIENT mode active: For mixed reviews (both good and bad), ''
           @ ''pick the dominant sentiment (Positive or Negative) as the label. ''
           @ ''Always mention the weaker side in the explanation.'')\<close>

text \<open>Line 304: the prompt.\<close>

definition build_prompt :: "(pyval \<Rightarrow> string) \<Rightarrow> string \<Rightarrow> bool \<Rightarrow> string" where
  \<open>build_prompt dumps review strict =
     PROMPT_INSTRUCTIONS @ [CHR 0x0A] @ ''Mode instruction: '' @ mode_inst strict
       @ [CHR 0x0A, CHR 0x0A] @ few_shot_block dumps @ [CHR 0x0A, CHR 0x0A]
       @ ''Review: "'' @ review @ ''"'' @ [CHR 0x0A] @ ''Return the JSON now.''\<close>

text \<open>
  The collaborators of \<^verbatim>\<open>analyze_review\<close>: the library functions it relies on and the
  external model. A response offers its \<^verbatim>\<open>text\<close> attribute, when it has one, and its
  string form.
\<close>

record gen_config =
  temperature :: pyfloat
  max_output_tokens :: nat

record response =
  resp_text :: "string option"
  resp_str :: string

record env =
  str_of :: "pyval \<Rightarrow> string"
  float_of_str :: "string \<Rightarrow> pyfloat option"
  json_loads :: "string \<Rightarrow> pyval option"
  json_dumps :: "pyval \<Rightarrow> string"
  generate_content :: "string \<Rightarrow> gen_config \<Rightarrow> pyerror + response"

text \<open>Line 313: \<^verbatim>\<open>getattr(resp, "text", None) or str(resp)\<close>.\<close>

definition raw_output :: "response \<Rightarrow> string" where
  "raw_output resp =
     (case resp_text resp of
        Some t \<Rightarrow> if t \<noteq> [] then t else resp_str resp
      | None \<Rightarrow> resp_str resp)"

definition default_result :: analysis_result where
  "default_result =
     \<lparr>label = ''Neutral'', confidence = Fin 0,
      explanation = ''No review text provided.'', evidence_phrases = []\<rparr>"

definition unparseable :: "string \<Rightarrow> pyerror" where
  "unparseable raw =
     ValueError (''Model did not return parseable JSON. Raw output:'' @ [CHR 0x0A] @ raw)"

text \<open>
  \<^verbatim>\<open>analyze_review\<close> (lines 278-318). The first component of the result is the list of
  calls made to the external model, each with its prompt and configuration; the second is
  the returned dict or the raised exception.
\<close>

definition analyze_review ::
  "env \<Rightarrow> string option \<Rightarrow> bool \<Rightarrow> pyfloat
     \<Rightarrow> (string \<times> gen_config) list \<times> (pyerror + analysis_result)" where
  "analyze_review env review strict temp =
     (let review = strip (case review of None \<Rightarrow> [] | Some r \<Rightarrow> r)
      in if review = [] then ([], Inr default_result)
         else
           (let prompt = build_prompt (json_dumps env) review strict;
                cfg = \<lparr>temperature = temp, max_output_tokens = 256\<rparr>
            in (case generate_content env prompt cfg of
                  Inl e \<Rightarrow> ([(prompt, cfg)], Inl e)
                | Inr resp \<Rightarrow>
                    (let raw = raw_output resp;
                         parsed = extract_json (json_loads env) (Some raw)
                     in ([(prompt, cfg)],
                         if \<not> truthy parsed then Inl (unparseable raw)
                         else coerce_result (str_of env) (float_of_str env) parsed)))))"

section \<open>The claims' own wording of the alias lookup\<close>

text \<open>
  The specification says of each field that the first non-absent value among its keys is
  read. \<open>first_non_absent\<close> follows these words: a key counts when it is bound to anything
  but \<^verbatim>\<open>None\<close>. \<open>first_truthy\<close> is the same walk with Python's truthiness as the test.
\<close>

fun first_non_absent :: "(string \<times> pyval) list \<Rightarrow> string list \<Rightarrow> pyval \<Rightarrow> pyval" where
  "first_non_absent d [] dflt = dflt"
| "first_non_absent d (k # ks) dflt =
     (if dict_get d k \<noteq> PNone then dict_get d k else first_non_absent d ks dflt)"

fun first_truthy :: "(string \<times> pyval) list \<Rightarrow> string list \<Rightarrow> pyval \<Rightarrow> pyval" where
  "first_truthy d [] dflt = dflt"
| "first_truthy d (k # ks) dflt =
     (if truthy (dict_get d k) then dict_get d k else first_truthy d ks dflt)"

text \<open>
  The confidence and the evidence as the specification words them: the conversions of the
  code, applied to the first non-absent value.
\<close>

definition claimed_confidence :: "(string \<Rightarrow> pyfloat option) \<Rightarrow> (string \<times> pyval) list \<Rightarrow> pyfloat" where
  "claimed_confidence fs parsed =
     (let conf_raw = first_non_absent parsed [''confidence'', ''score''] (PFloat (Fin 0));
          confidence = (case py_float fs conf_raw of Some f \<Rightarrow> f | None \<Rightarrow> Fin 0);
          confidence = (if float_lt confidence (Fin 0) \<or> float_lt (Fin 1) confidence
                        then Fin 0 else confidence)
      in py_round confidence 2)"

definition claimed_evidence :: "(pyval \<Rightarrow> string) \<Rightarrow> (string \<times> pyval) list \<Rightarrow> string list" where
  "claimed_evidence sf parsed =
     (let ev = first_non_absent parsed [''evidence_phrases'', ''evidence'', ''highlights'']
                 (PList []);
          ev_list = (case ev of
                       PList xs \<Rightarrow> map (\<lambda>x. strip (py_str sf x)) (filter is_str_int_float xs)
                     | PStr s \<Rightarrow> map strip (filter (\<lambda>p. strip p \<noteq> []) (re_split_delims s))
                     | _ \<Rightarrow> [])
      in take 3 ev_list)"

text \<open>
  Splitting a string at every \<open>|\<close> and \<open>;\<close>, as the specification words the treatment of
  a single evidence string; the parts keep their whitespace.
\<close>

fun split_on_delims :: "string \<Rightarrow> string \<Rightarrow> string list" where
  "split_on_delims acc [] = [rev acc]"
| "split_on_delims acc (c # cs) =
     (if c \<in> set ''|;'' then rev acc # split_on_delims [] cs
      else split_on_delims (c # acc) cs)"

text \<open>
  A concrete environment for evaluating the orchestrator: the model answers every prompt
  with the text \<open>reply\<close>, \<^verbatim>\<open>json.loads\<close> is the table \<open>loads\<close>, and the renderings
  are trivial.
\<close>

definition canned_env :: "(string \<Rightarrow> pyval option) \<Rightarrow> string \<Rightarrow> env" where
  "canned_env loads reply =
     \<lparr>str_of = (\<lambda>_. []), float_of_str = (\<lambda>_. None), json_loads = loads,
      json_dumps = (\<lambda>_. []),
      generate_content = (\<lambda>p c. Inr \<lparr>resp_text = Some reply, resp_str = []\<rparr>)\<rparr>"

text \<open>
  Two trivial collaborators for evaluation: a \<^verbatim>\<open>float\<close> that rejects every string and a
  rendering that gives every non-string value the empty string.
\<close>

definition no_str_float :: "string \<Rightarrow> pyfloat option" where
  "no_str_float s = None"

definition blank_str :: "pyval \<Rightarrow> string" where
  "blank_str v = []"

text \<open>\<open>del_key k d\<close> is the dict \<open>d\<close> without the key \<open>k\<close>.\<close>

definition del_key :: "string \<Rightarrow> (string \<times> pyval) list \<Rightarrow> (string \<times> pyval) list" where
  "del_key k d = filter (\<lambda>p. fst p \<noteq> k) d"

section \<open>Results about the Label Normalizer\<close>

text \<open>
  Claim C1. For every input value of the Label Normalizer: an absent input fails with the
  missing-label error; otherwise the lower-cased, trimmed string form decides: a member of
  \<open>{positive, pos, p}\<close> gives exactly \<open>Positive\<close>, of \<open>{negative, neg, n}\<close> exactly
  \<open>Negative\<close>, of \<open>{neutral, neu, ntrl, neut}\<close> exactly \<open>Neutral\<close>; every other value
  fails with an error whose message contains the raw value; and a returned string is
  always one of the three canonical labels.
\<close>

theorem normalize_label_total_spec:
  "normalize_label sf PNone = Inl (ValueError ''Label missing from model output'')
   \<and> (v \<noteq> PNone \<and> lower (strip (py_str sf v)) \<in> {''positive'', ''pos'', ''p''}
        \<longrightarrow> normalize_label sf v = Inr ''Positive'')
   \<and> (v \<noteq> PNone \<and> lower (strip (py_str sf v)) \<in> {''negative'', ''neg'', ''n''}
        \<longrightarrow> normalize_label sf v = Inr ''Negative'')
   \<and> (v \<noteq> PNone \<and> lower (strip (py_str sf v)) \<in> {''neutral'', ''neu'', ''ntrl'', ''neut''}
        \<longrightarrow> normalize_label sf v = Inr ''Neutral'')
   \<and> (v \<noteq> PNone \<and> lower (strip (py_str sf v)) \<notin>
          {''positive'', ''pos'', ''p'', ''negative'', ''neg'', ''n'',
           ''neutral'', ''neu'', ''ntrl'', ''neut''}
        \<longrightarrow> normalize_label sf v =
              Inl (ValueError (''Invalid label from model: '' @ [CHR 0x27]
                                 @ py_str sf v @ [CHR 0x27])))
   \<and> (\<forall>s. normalize_label sf v = Inr s \<longrightarrow> s \<in> {''Positive'', ''Negative'', ''Neutral''})"
  by (auto simp: normalize_label_def Let_def)

theorem normalize_label_total_spec_witness:
  "normalize_label (\<lambda>_. []) (PStr '' POS '') = Inr ''Positive''
   \<and> normalize_label (\<lambda>_. []) (PStr ''neg'') = Inr ''Negative''
   \<and> normalize_label (\<lambda>_. []) (PStr ''Neut'') = Inr ''Neutral''
   \<and> normalize_label (\<lambda>_. []) (PStr ''mixed'') =
        Inl (ValueError (''Invalid label from model: '' @ [CHR 0x27] @ ''mixed'' @ [CHR 0x27]))"
proof -
  have p: "PStr '' POS '' \<noteq> PNone
           \<and> lower (strip (py_str (\<lambda>_. []) (PStr '' POS ''))) \<in> {''positive'', ''pos'', ''p''}"
    by code_simp
  have n: "PStr ''neg'' \<noteq> PNone
           \<and> lower (strip (py_str (\<lambda>_. []) (PStr ''neg''))) \<in> {''negative'', ''neg'', ''n''}"
    by code_simp
  have u: "PStr ''Neut'' \<noteq> PNone
           \<and> lower (strip (py_str (\<lambda>_. []) (PStr ''Neut'')))
               \<in> {''neutral'', ''neu'', ''ntrl'', ''neut''}"
    by code_simp
  have m: "PStr ''mixed'' \<noteq> PNone
           \<and> lower (strip (py_str (\<lambda>_. []) (PStr ''mixed''))) \<notin>
          {''positive'', ''pos'', ''p'', ''negative'', ''neg'', ''n'',
           ''neutral'', ''neu'', ''ntrl'', ''neut''}"
    by code_simp
  have a: "normalize_label (\<lambda>_. []) (PStr '' POS '') = Inr ''Positive''"
    using normalize_label_total_spec [of "\<lambda>_. []" "PStr '' POS ''"] p by blast
  have b: "normalize_label (\<lambda>_. []) (PStr ''neg'') = Inr ''Negative''"
    using normalize_label_total_spec [of "\<lambda>_. []" "PStr ''neg''"] n by blast
  have c: "normalize_label (\<lambda>_. []) (PStr ''Neut'') = Inr ''Neutral''"
    using normalize_label_total_spec [of "\<lambda>_. []" "PStr ''Neut''"] u by blast
  have d: "normalize_label (\<lambda>_. []) (PStr ''mixed'') =
        Inl (ValueError (''Invalid label from model: '' @ [CHR 0x27]
               @ py_str (\<lambda>_. []) (PStr ''mixed'') @ [CHR 0x27]))"
    using normalize_label_total_spec [of "\<lambda>_. []" "PStr ''mixed''"] m by blast
  from a b c d show ?thesis by (simp add: py_str_def)
qed

section \<open>Results about the orchestrator\<close>

lemma strip_Nil: "strip [] = []"
  by (simp add: strip_def lstrip_def rstrip_def)

text \<open>
  Claim C4. For every review that is absent or trims to the empty string,
  \<open>analyze_review\<close> returns exactly the fixed default result (label \<open>Neutral\<close>,
  confidence \<open>0.0\<close>, explanation \<open>No review text provided.\<close>, no evidence), does not fail,
  and makes no call to the external model: the list of calls is empty, whatever the
  environment.
\<close>

theorem analyze_review_empty_default:
  assumes "review = None \<or> (\<exists>r. review = Some r \<and> strip r = [])"
  shows "analyze_review env review strict temp =
           ([], Inr \<lparr>label = ''Neutral'', confidence = Fin 0,
                     explanation = ''No review text provided.'', evidence_phrases = []\<rparr>)"
  using assms by (auto simp: analyze_review_def default_result_def strip_Nil)

theorem analyze_review_empty_default_witness:
  "analyze_review (canned_env Map.empty ''{}'') (Some ('' '' @ [CHR 0x0A])) True (Fin (1 / 5)) =
           ([], Inr \<lparr>label = ''Neutral'', confidence = Fin 0,
                     explanation = ''No review text provided.'', evidence_phrases = []\<rparr>)
   \<and> analyze_review (canned_env Map.empty ''{}'') None False (Fin (1 / 5)) =
           ([], Inr \<lparr>label = ''Neutral'', confidence = Fin 0,
                     explanation = ''No review text provided.'', evidence_phrases = []\<rparr>)"
proof -
  have h: "strip ('' '' @ [CHR 0x0A]) = []"
    by (simp add: strip_def lstrip_def rstrip_def is_space_def)
  show ?thesis
    using analyze_review_empty_default
            [of "Some ('' '' @ [CHR 0x0A])" "canned_env Map.empty ''{}''" True "Fin (1 / 5)"]
          analyze_review_empty_default [of None "canned_env Map.empty ''{}''" False "Fin (1 / 5)"]
          h
    by simp
qed

text \<open>
  Claim C10. There is raw model output that parses as a truthy JSON value which is not an
  object (the text \<open>[1]\<close>, for one) on which \<open>analyze_review\<close> fails with neither the
  unparseable-response error nor the invalid-label error but with the attribute error of a
  mapping lookup on a non-mapping. This holds for every review that is non-empty after
  trimming, whenever the extracted value is truthy and not a dict.
\<close>

theorem analyze_review_non_object_attribute_error:
  assumes "strip r \<noteq> []"
    and "generate_content env (build_prompt (json_dumps env) (strip r) strict)
           \<lparr>temperature = temp, max_output_tokens = 256\<rparr> = Inr resp"
    and "extract_json (json_loads env) (Some (raw_output resp)) = v"
    and "truthy v"
    and "\<forall>d. v \<noteq> PDict d"
  shows "snd (analyze_review env (Some r) strict temp) = Inl AttributeError
         \<and> snd (analyze_review env (Some r) strict temp) \<noteq> Inl (unparseable (raw_output resp))
         \<and> (\<forall>m. snd (analyze_review env (Some r) strict temp) \<noteq> Inl (ValueError m))"
proof -
  have "coerce_result (str_of env) (float_of_str env) v = Inl AttributeError"
    using assms(5) by (cases v) (simp_all add: coerce_result_def)
  then have "snd (analyze_review env (Some r) strict temp) = Inl AttributeError"
    using assms(1-4) by (simp add: analyze_review_def Let_def)
  then show ?thesis by (simp add: unparseable_def)
qed

theorem analyze_review_non_object_attribute_error_witness:
  "snd (analyze_review (canned_env (map_of [(''[1]'', PList [PInt 1])]) ''[1]'')
         (Some ''Great film'') True (Fin (1 / 5))) = Inl AttributeError"
proof -
  let ?env = "canned_env (map_of [(''[1]'', PList [PInt 1])]) ''[1]''"
  let ?resp = "\<lparr>resp_text = Some ''[1]'', resp_str = []\<rparr>"
  have a: "strip ''Great film'' \<noteq> []" by code_simp
  have b: "generate_content ?env (build_prompt (json_dumps ?env) (strip ''Great film'') True)
           \<lparr>temperature = Fin (1 / 5), max_output_tokens = 256\<rparr> = Inr ?resp"
    by (simp add: canned_env_def)
  have c: "extract_json (json_loads ?env) (Some (raw_output ?resp)) = PList [PInt 1]"
    by code_simp
  have d: "truthy (PList [PInt 1])" by simp
  have e: "\<forall>d. PList [PInt 1] \<noteq> PDict d" by simp
  from analyze_review_non_object_attribute_error [OF a b c d e] show ?thesis by blast
qed

section \<open>Results about the Schema Coercer\<close>

lemma map_of_del_key: "map_of (del_key k d) k' = (if k' = k then None else map_of d k')"
  by (induction d) (auto simp: del_key_def)

lemma dict_get_del_key:
  "dict_get (del_key k d) k' = (if k' = k then PNone else dict_get d k')"
  by (simp add: dict_get_def map_of_del_key)

lemma py_or_del_key:
  "\<not> truthy (dict_get d k) \<Longrightarrow> py_or (dict_get (del_key k d) k') b = py_or (dict_get d k') b"
  by (simp add: dict_get_del_key py_or_def)

lemma py_or_assoc: "py_or (py_or a b) c = py_or a (py_or b c)"
  by (simp add: py_or_def)

lemma coerce_confidence_del_key:
  "\<not> truthy (dict_get d k) \<Longrightarrow> coerce_confidence fs (del_key k d) = coerce_confidence fs d"
  by (simp add: coerce_confidence_def py_or_assoc py_or_del_key)

lemma coerce_evidence_del_key:
  "\<not> truthy (dict_get d k) \<Longrightarrow> coerce_evidence sf (del_key k d) = coerce_evidence sf d"
  by (simp add: coerce_evidence_def py_or_assoc py_or_del_key)

lemma coerce_result_del_key:
  assumes "\<not> truthy (dict_get d k)" and "k \<noteq> ''prediction''"
  shows "coerce_result sf fs (PDict (del_key k d)) = coerce_result sf fs (PDict d)"
proof -
  have "dict_get (del_key k d) ''prediction'' = dict_get d ''prediction''"
    using assms(2) by (simp add: dict_get_del_key)
  then show ?thesis
    using assms(1)
    by (simp add: coerce_result_def py_or_assoc py_or_del_key coerce_confidence_del_key
                  coerce_evidence_del_key cong: sum.case_cong)
qed

lemma lower_strip_positive: "lower (strip ''positive'') = ''positive''"
  by code_simp

section \<open>Results about the prompt\<close>


lemma mode_inst_distinct: "mode_inst True \<noteq> mode_inst False"
  by (simp add: mode_inst_def)




section \<open>Results about the Explanation Shortener\<close>

lemma strip_no_space:
  assumes "\<forall>c \<in> set s. \<not> is_space c"
  shows "strip s = s"
proof -
  have "dropWhile is_space s = s" using assms by (intro dropWhile_id) simp
  moreover have "dropWhile is_space (rev s) = rev s" using assms by (intro dropWhile_id) simp
  ultimately show ?thesis by (simp add: strip_def lstrip_def rstrip_def)
qed

lemma split_sentences_no_space:
  "\<forall>c \<in> set s. \<not> is_space c \<Longrightarrow> split_sentences i t acc s = [rev acc @ s]"
  by (induction s arbitrary: i t acc) simp_all

lemma rsplit_head_length: "length (rsplit_head s) \<le> length s"
proof -
  have "length (tl (dropWhile (\<lambda>c. c \<noteq> CHR '' '') (rev s))) \<le> length (rev s)"
    using length_dropWhile_le [of "\<lambda>c. c \<noteq> CHR '' ''" "rev s"] by simp
  then show ?thesis by (simp add: rsplit_head_def)
qed

lemma shorten_explanation_length: "length (shorten_explanation sf text n) \<le> 243"
proof -
  have "length (rsplit_head (take 240 s)) \<le> 240" for s
    using rsplit_head_length [of "take 240 s"] by simp
  then show ?thesis
    by (simp add: shorten_explanation_def Let_def)
qed

lemma shorten_explanation_no_space:
  assumes "\<forall>c \<in> set s. \<not> is_space c" and "240 < length s"
  shows "shorten_explanation sf (PStr s) 2 = take 240 s @ ''...''"
proof -
  have ne: "s \<noteq> []" using assms(2) by auto
  have sp: "CHR '' '' \<notin> set (take 240 s)"
    using assms(1) by (auto simp: is_space_def dest: in_set_takeD)
  have "strip s = s" using assms(1) by (rule strip_no_space)
  then show ?thesis
    using assms ne sp
    by (simp add: shorten_explanation_def py_str_def re_split_sentences_def
                  split_sentences_no_space py_take_def rsplit_head_def)
qed

text \<open>
  Claim C2. The Explanation Shortener is claimed to return at most 240 characters for
  every input. On the code the ellipsis is appended after the cut to 240 characters, so the
  result can have up to 243: for a text of 241 letters \<open>a\<close>, which has no whitespace and
  is one sentence, the result is 240 letters followed by three dots, 243 characters.
\<close>

theorem shorten_explanation_exceeds_240:
  "shorten_explanation sf (PStr (replicate 241 CHR ''a'')) 2 = replicate 240 CHR ''a'' @ ''...''
   \<and> length (shorten_explanation sf (PStr (replicate 241 CHR ''a'')) 2) = 243"
proof -
  have "\<forall>c \<in> set (replicate 241 CHR ''a''). \<not> is_space c"
    by (simp add: is_space_def)
  then have "shorten_explanation sf (PStr (replicate 241 CHR ''a'')) 2
               = take 240 (replicate 241 CHR ''a'') @ ''...''"
    by (rule shorten_explanation_no_space) simp
  then show ?thesis by simp
qed

section \<open>Results about the Text Sanitizer\<close>



































section \<open>Results about the confidence field\<close>

lemma round_half_even_cases:
  "round_half_even x = \<lfloor>x\<rfloor> \<and> x - of_int \<lfloor>x\<rfloor> \<le> 1 / 2
   \<or> round_half_even x = \<lfloor>x\<rfloor> + 1 \<and> 1 / 2 \<le> x - of_int \<lfloor>x\<rfloor>"
  by (auto simp: round_half_even_def Let_def)

lemma round_half_even_near: "\<bar>of_int (round_half_even x) - x\<bar> \<le> 1 / 2"
proof -
  have "of_int \<lfloor>x\<rfloor> \<le> x" and "x < of_int \<lfloor>x\<rfloor> + 1" by linarith+
  then show ?thesis using round_half_even_cases [of x] by auto
qed

lemma round_half_even_range:
  assumes "0 \<le> x" and "x \<le> of_int n"
  shows "0 \<le> round_half_even x \<and> round_half_even x \<le> n"
proof -
  have f0: "0 \<le> \<lfloor>x\<rfloor>" using assms(1) by simp
  have fn: "\<lfloor>x\<rfloor> \<le> n" using assms(2) by (simp add: floor_le_iff)
  have fl: "of_int \<lfloor>x\<rfloor> \<le> x" by linarith
  from round_half_even_cases [of x] show ?thesis
  proof
    assume "round_half_even x = \<lfloor>x\<rfloor> \<and> x - of_int \<lfloor>x\<rfloor> \<le> 1 / 2"
    then show ?thesis using f0 fn by simp
  next
    assume h: "round_half_even x = \<lfloor>x\<rfloor> + 1 \<and> 1 / 2 \<le> x - of_int \<lfloor>x\<rfloor>"
    then have "of_int \<lfloor>x\<rfloor> < (of_int n :: rat)" using assms(2) by linarith
    then have "\<lfloor>x\<rfloor> < n" by simp
    then show ?thesis using h f0 by simp
  qed
qed

lemma py_or_first_truthy2:
  "py_or (py_or (dict_get d k1) (dict_get d k2)) dflt = first_truthy d [k1, k2] dflt"
  by (simp add: py_or_def)

lemma py_or_first_truthy3:
  "py_or (py_or (py_or (dict_get d k1) (dict_get d k2)) (dict_get d k3)) dflt
     = first_truthy d [k1, k2, k3] dflt"
  by (simp add: py_or_def)

lemma coerce_confidence_first_truthy:
  "coerce_confidence fs d =
     (let c = (case py_float fs (first_truthy d [''confidence'', ''score''] (PFloat (Fin 0))) of
                 Some f \<Rightarrow> f | None \<Rightarrow> Fin 0)
      in py_round (if float_lt c (Fin 0) \<or> float_lt (Fin 1) c then Fin 0 else c) 2)"
  unfolding coerce_confidence_def py_or_first_truthy2 by (simp add: Let_def)

lemma py_round_zero: "py_round (Fin 0) 2 = Fin 0"
  by (simp add: py_round_def round_half_even_def)

lemma py_round_unit:
  assumes "0 \<le> q" and "q \<le> 1"
  shows "\<exists>k. py_round (Fin q) 2 = Fin (of_int k / 100) \<and> 0 \<le> k \<and> k \<le> 100
             \<and> \<bar>of_int k / 100 - q\<bar> \<le> 1 / 200"
proof -
  let ?k = "round_half_even (q * 100)"
  have "0 \<le> q * 100" and "q * 100 \<le> of_int 100" using assms by simp_all
  then have r: "0 \<le> ?k \<and> ?k \<le> 100" by (rule round_half_even_range)
  have "\<bar>of_int ?k - q * 100\<bar> \<le> 1 / 2" by (rule round_half_even_near)
  then have n: "\<bar>of_int ?k / 100 - q\<bar> \<le> 1 / 200" by (simp add: abs_le_iff field_simps)
  have "py_round (Fin q) 2 = Fin (of_int ?k / 100)" by (simp add: py_round_def)
  with r n show ?thesis by blast
qed

text \<open>
  Claim C5, amended. For every parsed mapping the confidence is computed from the first
  truthy value among the keys \<open>confidence\<close> and \<open>score\<close> (a value that is present but
  falsy is passed over like an absent one), with \<open>0.0\<close> when there is none. When the
  numeric conversion fails, or gives a value below \<open>0.0\<close> or above \<open>1.0\<close>, the confidence
  is \<open>0.0\<close>. When it gives a number \<open>q\<close> of the unit interval, the confidence is a whole
  number of hundredths within half a hundredth of \<open>q\<close>. Whenever the conversion does not
  give NaN, the confidence is a whole number of hundredths between \<open>0.0\<close> and \<open>1.0\<close>.
  The computation is total: it raises nothing.
\<close>

theorem coerce_confidence_first_truthy_spec:
  assumes "raw = first_truthy d [''confidence'', ''score''] (PFloat (Fin 0))"
  shows "(py_float fs raw = None \<longrightarrow> coerce_confidence fs d = Fin 0)
       \<and> (\<forall>f. py_float fs raw = Some f \<and> (float_lt f (Fin 0) \<or> float_lt (Fin 1) f)
              \<longrightarrow> coerce_confidence fs d = Fin 0)
       \<and> (\<forall>q. py_float fs raw = Some (Fin q) \<and> 0 \<le> q \<and> q \<le> 1
              \<longrightarrow> (\<exists>k. coerce_confidence fs d = Fin (of_int k / 100) \<and> 0 \<le> k \<and> k \<le> 100
                        \<and> \<bar>of_int k / 100 - q\<bar> \<le> 1 / 200))
       \<and> (py_float fs raw \<noteq> Some NaN
              \<longrightarrow> (\<exists>k. coerce_confidence fs d = Fin (of_int k / 100) \<and> 0 \<le> k \<and> k \<le> 100))"
proof -
  have z: "\<exists>k. Fin 0 = Fin (of_int k / 100) \<and> 0 \<le> k \<and> k \<le> (100::int)"
    by (rule exI [of _ 0]) simp
  have a: "coerce_confidence fs d = Fin 0" if "py_float fs raw = None"
    using that assms by (simp add: coerce_confidence_first_truthy py_round_zero)
  have b: "coerce_confidence fs d = Fin 0"
    if "py_float fs raw = Some f \<and> (float_lt f (Fin 0) \<or> float_lt (Fin 1) f)" for f
    using that assms by (auto simp: coerce_confidence_first_truthy py_round_zero)
  have c: "\<exists>k. coerce_confidence fs d = Fin (of_int k / 100) \<and> 0 \<le> k \<and> k \<le> 100
                        \<and> \<bar>of_int k / 100 - q\<bar> \<le> 1 / 200"
    if "py_float fs raw = Some (Fin q) \<and> 0 \<le> q \<and> q \<le> 1" for q
  proof -
    from that have "coerce_confidence fs d = py_round (Fin q) 2"
      using assms by (simp add: coerce_confidence_first_truthy)
    with py_round_unit [of q] that show ?thesis by simp
  qed
  have e: "\<exists>k. coerce_confidence fs d = Fin (of_int k / 100) \<and> 0 \<le> k \<and> k \<le> 100"
    if n: "py_float fs raw \<noteq> Some NaN"
  proof (cases "py_float fs raw")
    case None
    with a z show ?thesis by simp
  next
    case (Some f)
    show ?thesis
    proof (cases f)
      case (Fin q)
      show ?thesis
      proof (cases "0 \<le> q \<and> q \<le> 1")
        case True
        with c [of q] Some Fin show ?thesis by blast
      next
        case False
        then have "float_lt f (Fin 0) \<or> float_lt (Fin 1) f" using Fin by auto
        with b [of f] Some z show ?thesis by simp
      qed
    next
      case PosInf
      with b [of f] Some z show ?thesis by simp
    next
      case NegInf
      with b [of f] Some z show ?thesis by simp
    next
      case NaN
      with Some n show ?thesis by simp
    qed
  qed
  from a b c e show ?thesis by blast
qed

theorem coerce_confidence_first_truthy_spec_witness:
  "\<exists>k. coerce_confidence no_str_float
          [(''confidence'', PInt 0), (''score'', PFloat (Fin (871 / 1000)))]
        = Fin (of_int k / 100) \<and> 0 \<le> k \<and> k \<le> 100
        \<and> \<bar>of_int k / 100 - (871 / 1000 :: rat)\<bar> \<le> 1 / 200"
proof -
  let ?d = "[(''confidence'', PInt 0), (''score'', PFloat (Fin (871 / 1000)))]"
  have h: "PFloat (Fin (871 / 1000)) = first_truthy ?d [''confidence'', ''score''] (PFloat (Fin 0))"
    by (simp add: dict_get_def)
  have g: "py_float no_str_float (PFloat (Fin (871 / 1000))) = Some (Fin (871 / 1000))
           \<and> (0::rat) \<le> 871 / 1000 \<and> (871 / 1000 :: rat) \<le> 1"
    by (simp add: py_float_def)
  from coerce_confidence_first_truthy_spec [OF h, of no_str_float] g
  show ?thesis by blast
qed

text \<open>
  Claim C5 as stated fails: in \<open>{confidence: 0, score: 1}\<close> the first non-absent value
  is \<open>0\<close>, which gives \<open>0.0\<close>, while the code passes over the falsy \<open>0\<close> and returns
  \<open>1.0\<close>.
\<close>

theorem coerce_confidence_first_non_absent_counterexample:
  "claimed_confidence no_str_float [(''confidence'', PInt 0), (''score'', PInt 1)] = Fin 0
   \<and> coerce_confidence no_str_float [(''confidence'', PInt 0), (''score'', PInt 1)] = Fin 1"
  by (simp add: claimed_confidence_def coerce_confidence_def dict_get_def py_or_def py_float_def
                py_round_def round_half_even_def)

section \<open>Results about the evidence field\<close>

lemma strip_leading_space:
  assumes "\<forall>c \<in> set ws. is_space c"
  shows "strip (ws @ x) = strip x"
proof -
  have "dropWhile is_space (ws @ x) = dropWhile is_space x"
    using assms by (simp add: dropWhile_append)
  then show ?thesis by (simp add: strip_def lstrip_def)
qed

lemma split_delims_refines:
  "\<forall>c \<in> set ws. is_space c \<Longrightarrow> (i \<longrightarrow> acc = []) \<Longrightarrow>
     map strip (split_delims i acc s) = map strip (split_on_delims (acc @ rev ws) s)"
proof (induction s arbitrary: i acc ws)
  case Nil
  then show ?case by (simp add: strip_leading_space)
next
  case (Cons c s)
  show ?case
  proof (cases "c \<in> set ''|;''")
    case True
    have "map strip (split_delims True [] s) = map strip (split_on_delims ([] @ rev []) s)"
      by (rule Cons.IH) simp_all
    with True Cons.prems(1) show ?thesis by (simp add: strip_leading_space)
  next
    case False
    show ?thesis
    proof (cases "i \<and> is_space c")
      case True
      then have acc: "acc = []" using Cons.prems(2) by simp
      have "map strip (split_delims True [] s)
              = map strip (split_on_delims ([] @ rev (ws @ [c])) s)"
        using True Cons.prems(1) by (intro Cons.IH) simp_all
      with False True acc show ?thesis by simp
    next
      case nsp: False
      have "map strip (split_delims False (c # acc) s)
              = map strip (split_on_delims ((c # acc) @ rev ws) s)"
        using Cons.prems(1) by (intro Cons.IH) simp_all
      with False nsp show ?thesis by auto
    qed
  qed
qed

lemma re_split_delims_trimmed:
  "map strip (filter (\<lambda>p. strip p \<noteq> []) (re_split_delims s))
     = filter (\<lambda>p. p \<noteq> []) (map strip (split_on_delims [] s))"
proof -
  have "map strip (re_split_delims s) = map strip (split_on_delims [] s)"
    using split_delims_refines [of "[]" False "[]" s] by (simp add: re_split_delims_def)
  moreover have "map strip (filter (\<lambda>p. strip p \<noteq> []) xs)
                   = filter (\<lambda>p. p \<noteq> []) (map strip xs)" for xs
    by (induction xs) auto
  ultimately show ?thesis by simp
qed

lemma coerce_evidence_first_truthy:
  "coerce_evidence sf d =
     take 3 (case first_truthy d [''evidence_phrases'', ''evidence'', ''highlights''] (PList []) of
               PList xs \<Rightarrow> map (\<lambda>x. strip (py_str sf x)) (filter is_str_int_float xs)
             | PStr s \<Rightarrow> map strip (filter (\<lambda>p. strip p \<noteq> []) (re_split_delims s))
             | _ \<Rightarrow> [])"
  unfolding coerce_evidence_def py_or_first_truthy3 by (simp add: Let_def)

text \<open>
  Claim C6, amended. For every parsed mapping the evidence is computed from the first
  truthy value among the keys \<open>evidence_phrases\<close>, \<open>evidence\<close> and \<open>highlights\<close> (a
  value that is present but falsy, an empty list for one, is passed over like an absent
  one). Of a sequence, each element that is a string or a number, a boolean included, is
  kept as its trimmed string form and every other element is dropped. A single string is
  split at each \<open>|\<close> and \<open>;\<close>, the parts are trimmed and the empty ones dropped, so
  \<open>great acting; boring plot\<close> gives the two phrases. Any other value gives the empty
  sequence. The result has at most 3 items, and the computation is total.
\<close>

theorem coerce_evidence_first_truthy_spec:
  assumes "ev = first_truthy d [''evidence_phrases'', ''evidence'', ''highlights''] (PList [])"
  shows "(\<forall>xs. ev = PList xs \<longrightarrow>
            coerce_evidence sf d
              = take 3 (map (\<lambda>x. strip (py_str sf x)) (filter is_str_int_float xs)))
     \<and> (\<forall>s. ev = PStr s \<longrightarrow>
            coerce_evidence sf d
              = take 3 (filter (\<lambda>p. p \<noteq> []) (map strip (split_on_delims [] s))))
     \<and> ((\<forall>xs. ev \<noteq> PList xs) \<and> (\<forall>s. ev \<noteq> PStr s) \<longrightarrow> coerce_evidence sf d = [])
     \<and> length (coerce_evidence sf d) \<le> 3
     \<and> coerce_evidence sf [(''evidence'', PStr ''great acting; boring plot'')]
         = [''great acting'', ''boring plot'']"
proof -
  have k: "coerce_evidence sf d =
     take 3 (case ev of
               PList xs \<Rightarrow> map (\<lambda>x. strip (py_str sf x)) (filter is_str_int_float xs)
             | PStr s \<Rightarrow> map strip (filter (\<lambda>p. strip p \<noteq> []) (re_split_delims s))
             | _ \<Rightarrow> [])"
    unfolding assms by (rule coerce_evidence_first_truthy)
  have a: "coerce_evidence sf d
              = take 3 (map (\<lambda>x. strip (py_str sf x)) (filter is_str_int_float xs))"
    if "ev = PList xs" for xs
    using that by (simp add: k)
  have b: "coerce_evidence sf d
              = take 3 (filter (\<lambda>p. p \<noteq> []) (map strip (split_on_delims [] s)))"
    if "ev = PStr s" for s
    using that by (simp add: k re_split_delims_trimmed)
  have c: "coerce_evidence sf d = []" if "(\<forall>xs. ev \<noteq> PList xs) \<and> (\<forall>s. ev \<noteq> PStr s)"
    using that by (cases ev) (simp_all add: k)
  have l: "length (coerce_evidence sf d) \<le> 3"
    by (simp add: coerce_evidence_first_truthy)
  have e: "coerce_evidence sf [(''evidence'', PStr ''great acting; boring plot'')]
         = [''great acting'', ''boring plot'']"
    by code_simp
  from a b c l e show ?thesis by blast
qed

theorem coerce_evidence_first_truthy_spec_witness:
  "coerce_evidence blank_str
     [(''evidence_phrases'', PStr []),
      (''highlights'', PList [PStr '' a '', PNone, PInt 2, PStr ''c'', PStr ''d''])]
   = [''a'', [], ''c'']
   \<and> coerce_evidence blank_str [(''evidence'', PStr ''x | y;; z'')] = [''x'', ''y'', ''z'']
   \<and> coerce_evidence blank_str [(''evidence'', PInt 7)] = []"
proof -
  let ?d1 = "[(''evidence_phrases'', PStr []),
      (''highlights'', PList [PStr '' a '', PNone, PInt 2, PStr ''c'', PStr ''d''])]"
  let ?xs = "[PStr '' a '', PNone, PInt 2, PStr ''c'', PStr ''d'']"
  have h1: "PList ?xs = first_truthy ?d1 [''evidence_phrases'', ''evidence'', ''highlights''] (PList [])"
    by code_simp
  have v1: "take 3 (map (\<lambda>x. strip (py_str blank_str x)) (filter is_str_int_float ?xs))
              = [''a'', [], ''c'']"
    by code_simp
  have r1: "coerce_evidence blank_str ?d1 = [''a'', [], ''c'']"
    using coerce_evidence_first_truthy_spec [OF h1, of blank_str] v1 by simp
  let ?d2 = "[(''evidence'', PStr ''x | y;; z'')]"
  have h2: "PStr ''x | y;; z'' = first_truthy ?d2 [''evidence_phrases'', ''evidence'', ''highlights''] (PList [])"
    by code_simp
  have v2: "take 3 (filter (\<lambda>p. p \<noteq> []) (map strip (split_on_delims [] ''x | y;; z'')))
              = [''x'', ''y'', ''z'']"
    by code_simp
  have r2: "coerce_evidence blank_str ?d2 = [''x'', ''y'', ''z'']"
    using coerce_evidence_first_truthy_spec [OF h2, of blank_str] v2 by simp
  let ?d3 = "[(''evidence'', PInt 7)]"
  have h3: "PInt 7 = first_truthy ?d3 [''evidence_phrases'', ''evidence'', ''highlights''] (PList [])"
    by code_simp
  have r3: "coerce_evidence blank_str ?d3 = []"
    using coerce_evidence_first_truthy_spec [OF h3, of blank_str] by simp
  from r1 r2 r3 show ?thesis by simp
qed

text \<open>
  Claim C6 as stated fails: in \<open>{evidence_phrases: [], evidence: ["a"]}\<close> the first
  non-absent value is the empty sequence, which gives no evidence, while the code passes
  over the falsy \<open>[]\<close> and returns the phrase \<open>a\<close>.
\<close>

theorem coerce_evidence_first_non_absent_counterexample:
  "claimed_evidence blank_str [(''evidence_phrases'', PList []), (''evidence'', PList [PStr ''a''])]
     = []
   \<and> coerce_evidence blank_str [(''evidence_phrases'', PList []), (''evidence'', PList [PStr ''a''])]
     = [''a'']"
  by code_simp

section \<open>Results about the failures of the orchestrator\<close>

lemma analyze_review_outcome:
  assumes "strip r \<noteq> []"
    and "generate_content env (build_prompt (json_dumps env) (strip r) strict)
           \<lparr>temperature = temp, max_output_tokens = 256\<rparr> = Inr resp"
  shows "snd (analyze_review env (Some r) strict temp) =
           (if \<not> truthy (extract_json (json_loads env) (Some (raw_output resp)))
            then Inl (unparseable (raw_output resp))
            else coerce_result (str_of env) (float_of_str env)
                   (extract_json (json_loads env) (Some (raw_output resp))))"
  using assms by (simp add: analyze_review_def Let_def)

lemma normalize_label_errors:
  assumes "normalize_label sf v = Inl e"
  shows "e = ValueError ''Label missing from model output''
         \<or> e = ValueError (''Invalid label from model: '' @ [CHR 0x27] @ py_str sf v @ [CHR 0x27])"
  using assms by (auto simp: normalize_label_def Let_def split: if_splits)

lemma normalize_label_not_unparseable: "normalize_label sf v \<noteq> Inl (unparseable raw)"
proof
  assume "normalize_label sf v = Inl (unparseable raw)"
  from normalize_label_errors [OF this] show False by (simp add: unparseable_def)
qed

lemma coerce_result_dict_error:
  assumes "coerce_result sf fs (PDict d) = Inl e"
  shows "normalize_label sf
           (py_or (py_or (dict_get d ''label'') (dict_get d ''sentiment''))
                  (dict_get d ''prediction'')) = Inl e"
  using assms by (simp add: coerce_result_def split: sum.splits)

lemma coerce_result_not_unparseable: "coerce_result sf fs v \<noteq> Inl (unparseable raw)"
proof (cases v)
  case (PDict d)
  show ?thesis
  proof
    assume "coerce_result sf fs v = Inl (unparseable raw)"
    with PDict have "normalize_label sf
           (py_or (py_or (dict_get d ''label'') (dict_get d ''sentiment''))
                  (dict_get d ''prediction'')) = Inl (unparseable raw)"
      by (simp add: coerce_result_dict_error)
    with normalize_label_not_unparseable show False by blast
  qed
qed (simp_all add: coerce_result_def unparseable_def)

text \<open>
  Claim C3, amended. For every review that is non-empty after trimming, once the model has
  answered, \<open>analyze_review\<close> raises the diagnostic error carrying the raw output if and
  only if the sanitize-then-extract pipeline recovers no JSON value or recovers a falsy
  one (\<open>null\<close>, \<open>false\<close>, \<open>0\<close>, an empty string, list or object). Whenever a non-empty
  JSON object is recovered, the call proceeds to coercion, its result is the coercer's,
  and the only failure it can raise is the error of the Label Normalizer on the label
  value, as it is.
\<close>

theorem analyze_review_failure_modes:
  assumes "strip r \<noteq> []"
    and "generate_content env (build_prompt (json_dumps env) (strip r) strict)
           \<lparr>temperature = temp, max_output_tokens = 256\<rparr> = Inr resp"
    and "raw = raw_output resp"
    and "got = recover_json (json_loads env) (Some raw)"
  shows "(snd (analyze_review env (Some r) strict temp) = Inl (unparseable raw)
            \<longleftrightarrow> got = None \<or> (\<exists>v. got = Some v \<and> \<not> truthy v))
    \<and> (\<forall>d. got = Some (PDict d) \<and> d \<noteq> [] \<longrightarrow>
          snd (analyze_review env (Some r) strict temp)
            = coerce_result (str_of env) (float_of_str env) (PDict d)
          \<and> (\<forall>e. snd (analyze_review env (Some r) strict temp) = Inl e \<longrightarrow>
                 normalize_label (str_of env)
                   (py_or (py_or (dict_get d ''label'') (dict_get d ''sentiment''))
                          (dict_get d ''prediction'')) = Inl e))"
proof -
  let ?res = "snd (analyze_review env (Some r) strict temp)"
  let ?parsed = "extract_json (json_loads env) (Some raw)"
  have out: "?res = (if \<not> truthy ?parsed then Inl (unparseable raw)
                     else coerce_result (str_of env) (float_of_str env) ?parsed)"
    unfolding assms(3) by (rule analyze_review_outcome [OF assms(1,2)])
  have falsy: "\<not> truthy ?parsed \<longleftrightarrow> got = None \<or> (\<exists>v. got = Some v \<and> \<not> truthy v)"
    unfolding assms(4) by (cases "recover_json (json_loads env) (Some raw)")
                          (simp_all add: extract_json_def)
  have a: "?res = Inl (unparseable raw) \<longleftrightarrow> got = None \<or> (\<exists>v. got = Some v \<and> \<not> truthy v)"
  proof (cases "truthy ?parsed")
    case True
    then have "?res = coerce_result (str_of env) (float_of_str env) ?parsed"
      using out by simp
    then have "?res \<noteq> Inl (unparseable raw)"
      using coerce_result_not_unparseable by simp
    with True falsy show ?thesis by blast
  next
    case False
    then have "?res = Inl (unparseable raw)" using out by simp
    with False falsy show ?thesis by blast
  qed
  have b: "?res = coerce_result (str_of env) (float_of_str env) (PDict d)
          \<and> (\<forall>e. ?res = Inl e \<longrightarrow>
                 normalize_label (str_of env)
                   (py_or (py_or (dict_get d ''label'') (dict_get d ''sentiment''))
                          (dict_get d ''prediction'')) = Inl e)"
    if h: "got = Some (PDict d) \<and> d \<noteq> []" for d
  proof -
    from h have p: "?parsed = PDict d"
      unfolding assms(4) by (simp add: extract_json_def)
    with h have r: "?res = coerce_result (str_of env) (float_of_str env) (PDict d)"
      using out by simp
    then show ?thesis using coerce_result_dict_error by simp
  qed
  from a b show ?thesis by blast
qed

theorem analyze_review_failure_modes_witness:
  \<open>snd (analyze_review
          (canned_env (map_of [(''{"label":"pos"}'', PDict [(''label'', PStr ''pos'')])])
             ''{"label":"pos"}'')
          (Some ''Great film'') True (Fin (1 / 5)))
     = Inr \<lparr>label = ''Positive'', confidence = Fin 0, explanation = [],
            evidence_phrases = []\<rparr>\<close>
proof -
  let ?loads = \<open>map_of [(''{"label":"pos"}'', PDict [(''label'', PStr ''pos'')])]\<close>
  let ?env = \<open>canned_env ?loads ''{"label":"pos"}''\<close>
  let ?resp = \<open>\<lparr>resp_text = Some ''{"label":"pos"}'', resp_str = []\<rparr>\<close>
  let ?d = "[(''label'', PStr ''pos'')]"
  have a: "strip ''Great film'' \<noteq> []" by code_simp
  have b: "generate_content ?env (build_prompt (json_dumps ?env) (strip ''Great film'') True)
           \<lparr>temperature = Fin (1 / 5), max_output_tokens = 256\<rparr> = Inr ?resp"
    by (simp add: canned_env_def)
  have c: \<open>''{"label":"pos"}'' = raw_output ?resp\<close> by (simp add: raw_output_def)
  have d: \<open>Some (PDict ?d) = recover_json (json_loads ?env) (Some ''{"label":"pos"}'')\<close>
    by code_simp
  have e: "Some (PDict ?d) = Some (PDict ?d) \<and> ?d \<noteq> []" by simp
  have v: "coerce_result (str_of ?env) (float_of_str ?env) (PDict ?d)
             = Inr \<lparr>label = ''Positive'', confidence = Fin 0, explanation = [],
                    evidence_phrases = []\<rparr>"
    by code_simp
  from analyze_review_failure_modes [OF a b c d] e v show ?thesis by simp
qed

text \<open>
  Claim C3 as stated fails: on the raw output \<open>{}\<close> the pipeline recovers a parsed
  structure, the empty object, and yet the diagnostic error is raised, since the guard
  before the coercion tests the truthiness of the parsed value.
\<close>

theorem analyze_review_empty_object_counterexample:
  "recover_json (json_loads (canned_env (map_of [(''{}'', PDict [])]) ''{}'')) (Some ''{}'')
     = Some (PDict [])
   \<and> snd (analyze_review (canned_env (map_of [(''{}'', PDict [])]) ''{}'')
            (Some ''Great film'') True (Fin (1 / 5)))
     = Inl (unparseable ''{}'')"
proof -
  let ?env = "canned_env (map_of [(''{}'', PDict [])]) ''{}''"
  let ?resp = "\<lparr>resp_text = Some ''{}'', resp_str = []\<rparr>"
  have a: "strip ''Great film'' \<noteq> []" by code_simp
  have b: "generate_content ?env (build_prompt (json_dumps ?env) (strip ''Great film'') True)
           \<lparr>temperature = Fin (1 / 5), max_output_tokens = 256\<rparr> = Inr ?resp"
    by (simp add: canned_env_def)
  have c: "recover_json (json_loads ?env) (Some ''{}'') = Some (PDict [])" by code_simp
  have d: "raw_output ?resp = ''{}''" by (simp add: raw_output_def)
  have "snd (analyze_review ?env (Some ''Great film'') True (Fin (1 / 5))) = Inl (unparseable ''{}'')"
    using analyze_review_outcome [OF a b] c d by (simp add: extract_json_def)
  with c show ?thesis by simp
qed

section \<open>Results about the alias fallback\<close>

lemma py_or_first_truthy4:
  "py_or (py_or (py_or (py_or (dict_get d k1) (dict_get d k2)) (dict_get d k3)) (dict_get d k4))
         dflt
     = first_truthy d [k1, k2, k3, k4] dflt"
  by (simp add: py_or_def)

lemma coerce_result_first_truthy:
  "coerce_result sf fs (PDict d) =
     (case normalize_label sf
             (first_truthy d [''label'', ''sentiment''] (dict_get d ''prediction'')) of
        Inl e \<Rightarrow> Inl e
      | Inr lab \<Rightarrow>
          Inr \<lparr>label = lab,
               confidence =
                 py_round
                   (let c = (case py_float fs
                                    (first_truthy d [''confidence'', ''score''] (PFloat (Fin 0))) of
                               Some f \<Rightarrow> f | None \<Rightarrow> Fin 0)
                    in if float_lt c (Fin 0) \<or> float_lt (Fin 1) c then Fin 0 else c) 2,
               explanation =
                 shorten_explanation sf
                   (first_truthy d [''explanation'', ''rationale'', ''reason'', ''justification'']
                      (PStr [])) 2,
               evidence_phrases =
                 take 3
                   (case first_truthy d [''evidence_phrases'', ''evidence'', ''highlights'']
                           (PList []) of
                      PList xs \<Rightarrow> map (\<lambda>x. strip (py_str sf x)) (filter is_str_int_float xs)
                    | PStr s \<Rightarrow> map strip (filter (\<lambda>p. strip p \<noteq> []) (re_split_delims s))
                    | _ \<Rightarrow> [])\<rparr>)"
proof -
  have l: "py_or (py_or (dict_get d ''label'') (dict_get d ''sentiment''))
                 (dict_get d ''prediction'')
             = first_truthy d [''label'', ''sentiment''] (dict_get d ''prediction'')"
    by (rule py_or_first_truthy2)
  have e: "py_or (py_or (py_or (py_or (dict_get d ''explanation'') (dict_get d ''rationale''))
                               (dict_get d ''reason''))
                        (dict_get d ''justification'')) (PStr [])
             = first_truthy d [''explanation'', ''rationale'', ''reason'', ''justification'']
                 (PStr [])"
    by (rule py_or_first_truthy4)
  show ?thesis
    by (simp only: coerce_result_def pyval.case l e coerce_confidence_first_truthy
                   coerce_evidence_first_truthy Let_def)
qed

text \<open>
  Claim C9, amended. In the Schema Coercer the fallback between alias keys is decided by
  truthiness, not by the presence of the key. For every parsed mapping each field is
  computed from the first truthy value along its keys: the label from \<open>label\<close>, then
  \<open>sentiment\<close>, then whatever \<open>prediction\<close> holds; the confidence from \<open>confidence\<close>,
  then \<open>score\<close>, then \<open>0.0\<close>; the explanation from \<open>explanation\<close>, \<open>rationale\<close>,
  \<open>reason\<close>, \<open>justification\<close>, then the empty string; the evidence from
  \<open>evidence_phrases\<close>, \<open>evidence\<close>, \<open>highlights\<close>, then the empty list. In this walk
  a key that is present with a falsy value (empty string, \<open>0\<close>, \<open>0.0\<close>, \<open>false\<close>,
  \<open>null\<close>, empty list) is passed over exactly like an absent key, in favour of the next
  alias key or the default, so the result is the one of the mapping without that key:
  for the confidence and the evidence whatever the key, for the whole result for every
  key but \<open>prediction\<close>, the last label alias, whose value goes to the Label Normalizer
  as it is. So \<open>{confidence: 0.0, score: 0.9}\<close> gives confidence \<open>0.9\<close>, also in the
  whole result once a label is there, and \<open>{label: "", sentiment: "positive"}\<close> gives
  the label \<open>Positive\<close>, not a failure.
\<close>

theorem coerce_result_first_truthy_spec:
  "coerce_result sf fs (PDict d) =
     (case normalize_label sf
             (first_truthy d [''label'', ''sentiment''] (dict_get d ''prediction'')) of
        Inl e \<Rightarrow> Inl e
      | Inr lab \<Rightarrow>
          Inr \<lparr>label = lab,
               confidence =
                 py_round
                   (let c = (case py_float fs
                                    (first_truthy d [''confidence'', ''score''] (PFloat (Fin 0))) of
                               Some f \<Rightarrow> f | None \<Rightarrow> Fin 0)
                    in if float_lt c (Fin 0) \<or> float_lt (Fin 1) c then Fin 0 else c) 2,
               explanation =
                 shorten_explanation sf
                   (first_truthy d [''explanation'', ''rationale'', ''reason'', ''justification'']
                      (PStr [])) 2,
               evidence_phrases =
                 take 3
                   (case first_truthy d [''evidence_phrases'', ''evidence'', ''highlights'']
                           (PList []) of
                      PList xs \<Rightarrow> map (\<lambda>x. strip (py_str sf x)) (filter is_str_int_float xs)
                    | PStr s \<Rightarrow> map strip (filter (\<lambda>p. strip p \<noteq> []) (re_split_delims s))
                    | _ \<Rightarrow> [])\<rparr>)
   \<and> (\<forall>ks dflt. map_of d k = Some v \<and> \<not> truthy v \<longrightarrow>
          first_truthy d (k # ks) dflt = first_truthy d ks dflt)
   \<and> (\<forall>ks dflt. map_of d k = None \<longrightarrow>
          first_truthy d (k # ks) dflt = first_truthy d ks dflt)
   \<and> (\<forall>ks dflt. map_of d k = Some v \<and> truthy v \<longrightarrow> first_truthy d (k # ks) dflt = v)
   \<and> (\<forall>dflt. first_truthy d [] dflt = dflt)
   \<and> (map_of d k = Some v \<and> \<not> truthy v \<longrightarrow>
        coerce_confidence fs d = coerce_confidence fs (del_key k d)
        \<and> coerce_evidence sf d = coerce_evidence sf (del_key k d)
        \<and> (k \<noteq> ''prediction'' \<longrightarrow>
             coerce_result sf fs (PDict d) = coerce_result sf fs (PDict (del_key k d))))
   \<and> coerce_confidence fs [(''confidence'', PFloat (Fin 0)), (''score'', PFloat (Fin (9 / 10)))]
       = Fin (9 / 10)
   \<and> coerce_result sf fs
        (PDict [(''label'', PStr ''positive''), (''confidence'', PFloat (Fin 0)),
                (''score'', PFloat (Fin (9 / 10)))])
       = Inr \<lparr>label = ''Positive'', confidence = Fin (9 / 10), explanation = [],
              evidence_phrases = []\<rparr>
   \<and> coerce_result sf fs (PDict [(''label'', PStr []), (''sentiment'', PStr ''positive'')])
       = Inr \<lparr>label = ''Positive'', confidence = Fin 0, explanation = [],
              evidence_phrases = []\<rparr>"
proof (intro conjI allI impI)
  show "coerce_result sf fs (PDict d) =
     (case normalize_label sf
             (first_truthy d [''label'', ''sentiment''] (dict_get d ''prediction'')) of
        Inl e \<Rightarrow> Inl e
      | Inr lab \<Rightarrow>
          Inr \<lparr>label = lab,
               confidence =
                 py_round
                   (let c = (case py_float fs
                                    (first_truthy d [''confidence'', ''score''] (PFloat (Fin 0))) of
                               Some f \<Rightarrow> f | None \<Rightarrow> Fin 0)
                    in if float_lt c (Fin 0) \<or> float_lt (Fin 1) c then Fin 0 else c) 2,
               explanation =
                 shorten_explanation sf
                   (first_truthy d [''explanation'', ''rationale'', ''reason'', ''justification'']
                      (PStr [])) 2,
               evidence_phrases =
                 take 3
                   (case first_truthy d [''evidence_phrases'', ''evidence'', ''highlights'']
                           (PList []) of
                      PList xs \<Rightarrow> map (\<lambda>x. strip (py_str sf x)) (filter is_str_int_float xs)
                    | PStr s \<Rightarrow> map strip (filter (\<lambda>p. strip p \<noteq> []) (re_split_delims s))
                    | _ \<Rightarrow> [])\<rparr>)"
    by (rule coerce_result_first_truthy)
next
  fix ks dflt
  assume "map_of d k = Some v \<and> \<not> truthy v"
  then show "first_truthy d (k # ks) dflt = first_truthy d ks dflt"
    by (simp add: dict_get_def)
next
  fix ks dflt
  assume "map_of d k = None"
  then show "first_truthy d (k # ks) dflt = first_truthy d ks dflt"
    by (simp add: dict_get_def)
next
  fix ks dflt
  assume "map_of d k = Some v \<and> truthy v"
  then show "first_truthy d (k # ks) dflt = v"
    by (simp add: dict_get_def)
next
  fix dflt
  show "first_truthy d [] dflt = dflt" by simp
next
  assume h: "map_of d k = Some v \<and> \<not> truthy v"
  then have f: "\<not> truthy (dict_get d k)" by (simp add: dict_get_def)
  show "coerce_confidence fs d = coerce_confidence fs (del_key k d)"
    using f by (simp add: coerce_confidence_del_key)
  show "coerce_evidence sf d = coerce_evidence sf (del_key k d)"
    using f by (simp add: coerce_evidence_del_key)
  show "coerce_result sf fs (PDict d) = coerce_result sf fs (PDict (del_key k d))"
    if "k \<noteq> ''prediction''"
    using f that by (simp add: coerce_result_del_key)
next
  show "coerce_confidence fs [(''confidence'', PFloat (Fin 0)), (''score'', PFloat (Fin (9 / 10)))]
       = Fin (9 / 10)"
    by (simp add: coerce_confidence_def dict_get_def py_or_def py_float_def py_round_def
                  round_half_even_def)
next
  show "coerce_result sf fs
        (PDict [(''label'', PStr ''positive''), (''confidence'', PFloat (Fin 0)),
                (''score'', PFloat (Fin (9 / 10)))])
       = Inr \<lparr>label = ''Positive'', confidence = Fin (9 / 10), explanation = [],
              evidence_phrases = []\<rparr>"
    by (simp add: coerce_result_first_truthy dict_get_def normalize_label_def py_str_def
                  lower_strip_positive py_float_def py_round_def round_half_even_def
                  shorten_explanation_def)
next
  show "coerce_result sf fs (PDict [(''label'', PStr []), (''sentiment'', PStr ''positive'')])
       = Inr \<lparr>label = ''Positive'', confidence = Fin 0, explanation = [],
              evidence_phrases = []\<rparr>"
    by (simp add: coerce_result_first_truthy dict_get_def normalize_label_def py_str_def
                  lower_strip_positive py_float_def py_round_def round_half_even_def
                  shorten_explanation_def)
qed

theorem coerce_result_first_truthy_spec_witness:
  "coerce_result blank_str no_str_float
     (PDict [(''label'', PStr []), (''sentiment'', PStr ''pos''),
             (''confidence'', PFloat (Fin 0)), (''score'', PFloat (Fin (9 / 10)))])
     = Inr \<lparr>label = ''Positive'', confidence = Fin (9 / 10), explanation = [],
            evidence_phrases = []\<rparr>
   \<and> coerce_result blank_str no_str_float
        (PDict [(''sentiment'', PStr ''pos''),
                (''confidence'', PFloat (Fin 0)), (''score'', PFloat (Fin (9 / 10)))])
     = Inr \<lparr>label = ''Positive'', confidence = Fin (9 / 10), explanation = [],
            evidence_phrases = []\<rparr>
   \<and> first_truthy [(''label'', PStr []), (''sentiment'', PStr ''pos''),
                    (''confidence'', PFloat (Fin 0)), (''score'', PFloat (Fin (9 / 10)))]
         [''label'', ''sentiment''] PNone = PStr ''pos''"
proof -
  let ?d = "[(''label'', PStr []), (''sentiment'', PStr ''pos''),
             (''confidence'', PFloat (Fin 0)), (''score'', PFloat (Fin (9 / 10)))]"
  note spec = coerce_result_first_truthy_spec
                [of blank_str no_str_float ?d "''label''" "PStr []"]
  have h: "map_of ?d ''label'' = Some (PStr []) \<and> \<not> truthy (PStr [])" by simp
  have n: "''label'' \<noteq> ''prediction''" by simp
  have dk: "del_key ''label'' ?d = [(''sentiment'', PStr ''pos''),
             (''confidence'', PFloat (Fin 0)), (''score'', PFloat (Fin (9 / 10)))]"
    by (simp add: del_key_def)
  have a: "coerce_result blank_str no_str_float (PDict ?d)
     = Inr \<lparr>label = ''Positive'', confidence = Fin (9 / 10), explanation = [],
            evidence_phrases = []\<rparr>"
    unfolding spec [THEN conjunct1] by code_simp
  have skip: "first_truthy ?d [''label'', ''sentiment''] PNone
                = first_truthy ?d [''sentiment''] PNone"
    using spec [THEN conjunct2, THEN conjunct1] h by blast
  have b: "coerce_result blank_str no_str_float (PDict ?d)
             = coerce_result blank_str no_str_float (PDict (del_key ''label'' ?d))"
    using spec h n by blast
  have c: "first_truthy ?d [''sentiment''] PNone = PStr ''pos''" by (simp add: dict_get_def)
  from a b dk skip c show ?thesis by simp
qed

text \<open>
  Claim C9 as stated fails for the last label alias: in \<open>{prediction: ""}\<close> the key is
  present with a falsy value and there is neither a next alias nor a default, and the
  value is not passed over: the code raises the invalid-label error on the empty string,
  while the mapping without the key raises the missing-label error.
\<close>

theorem coerce_result_last_alias_counterexample:
  "coerce_result blank_str no_str_float (PDict [(''prediction'', PStr [])])
     = Inl (ValueError (''Invalid label from model: '' @ [CHR 0x27, CHR 0x27]))
   \<and> coerce_result blank_str no_str_float (PDict (del_key ''prediction'' [(''prediction'', PStr [])]))
     = Inl (ValueError ''Label missing from model output'')"
  by code_simp

end
